theory Spec2Isabelle
  imports Complex_Main "HOL-Library.Multiset"
begin

section \<open>Data model (models.py)\<close>

subsection \<open>Python floats\<close>

text \<open>
  Balances and amounts are Python floats (IEEE 754 binary64) stored in \<open>Float\<close> columns.
  An amount that arrives in a request is a finite float and is written as the real number
  it denotes. A balance is the result of float arithmetic and may also be an infinity,
  which the sum of two large amounts overflows to. Not-a-number does not arise from the
  operations below (a float plus or minus a finite float); the two zeros are identified.
\<close>

datatype pyfloat = Fin real | PInf | NInf

text \<open>
  Rounding of an exact result to the nearest float, ties to the even significand: 53
  significant bits, spacing \<open>2 ^ -1074\<close> at the bottom of the range, and overflow to an
  infinity from \<open>2 ^ 1024 - 2 ^ 970\<close> upwards.
\<close>

definition round_half_even :: "real \<Rightarrow> int" where
  "round_half_even q =
     (let f = \<lfloor>q\<rfloor>
      in if q - of_int f < 1 / 2 then f
         else if 1 / 2 < q - of_int f then f + 1
         else if even f then f else f + 1)"

definition binary64_exponent :: "real \<Rightarrow> int" where
  "binary64_exponent x = max (\<lfloor>log 2 \<bar>x\<bar>\<rfloor> - 52) (- 1074)"

definition round_double :: "real \<Rightarrow> pyfloat" where
  "round_double x =
     (if x = 0 then Fin 0
      else
        (let e = binary64_exponent x;
             y = of_int (round_half_even (x / 2 powr of_int e)) * 2 powr of_int e
         in if 2 ^ 1024 \<le> \<bar>y\<bar> then (if 0 < x then PInf else NInf) else Fin y))"

text \<open>
  Python's \<open>balance + amount\<close>, \<open>balance - amount\<close> and \<open>balance < amount\<close> on a balance
  and a finite amount: the exact result, rounded.
\<close>

fun fadd :: "pyfloat \<Rightarrow> real \<Rightarrow> pyfloat" where
  "fadd (Fin x) a = round_double (x + a)"
| "fadd PInf a = PInf"
| "fadd NInf a = NInf"

fun fsub :: "pyfloat \<Rightarrow> real \<Rightarrow> pyfloat" where
  "fsub (Fin x) a = round_double (x - a)"
| "fsub PInf a = PInf"
| "fsub NInf a = NInf"

fun flt :: "pyfloat \<Rightarrow> real \<Rightarrow> bool" where
  "flt (Fin x) a = (x < a)"
| "flt PInf a = False"
| "flt NInf a = True"

text \<open>The real numbers that are floats: those that rounding leaves as they are.\<close>

definition is_double :: "real \<Rightarrow> bool" where
  "is_double x = (round_double x = Fin x)"

subsection \<open>The tables\<close>

text \<open>
  The two tables of models.py. \<open>DateTime\<close> values are points on a discrete time line. The
  primary keys \<open>Account.id\<close> and \<open>Transaction.id\<close> are the fields \<open>acc_id\<close> and
  \<open>txn_id\<close>, the transaction's \<open>type\<close> column is \<open>txn_type\<close>.
\<close>

type_synonym datetime = nat

datatype TransactionType = DEPOSIT | WITHDRAWAL

record Account =
  acc_id :: int
  owner_name :: string
  balance :: pyfloat
  created_at :: datetime

record Transaction =
  txn_id :: int
  account_id :: int
  txn_type :: TransactionType
  amount :: real
  timestamp :: datetime

text \<open>
  One write reaching the store, with the primary key of the row it touches. A
  \<open>db.commit()\<close> of crud.py flushes the pending change of the session: the INSERT of an
  added row, or the UPDATE of a row whose attribute was assigned a value different from
  the loaded one. An assignment of the value the attribute already has leaves nothing
  to flush.
\<close>

datatype write_event = AccountInsert int | AccountUpdate int | TransactionInsert int

text \<open>
  The session's view of the store: the rows of both tables in insertion order, and the
  trace of the writes issued so far.
\<close>

record db =
  accounts :: "Account list"
  transactions :: "Transaction list"
  writes :: "write_event list"

definition empty_db :: db where
  "empty_db = \<lparr>accounts = [], transactions = [], writes = []\<rparr>"

text \<open>
  The integer primary key the store assigns to a new row: one more than the largest key
  in the table (1 for an empty table). No exposed operation deletes a row.
\<close>

definition next_id :: "int list \<Rightarrow> int" where
  "next_id ids = foldr max ids 0 + 1"

section \<open>Data access layer (crud.py)\<close>

definition get_account_by_id :: "db \<Rightarrow> int \<Rightarrow> Account option" where
  "get_account_by_id d i = find (\<lambda>a. acc_id a = i) (accounts d)"

definition get_account_by_owner_name :: "db \<Rightarrow> string \<Rightarrow> Account option" where
  "get_account_by_owner_name d n = find (\<lambda>a. owner_name a = n) (accounts d)"

text \<open>
  \<open>create_transaction\<close>: add, commit, refresh. \<open>now\<close> is the value the column default
  \<open>datetime.utcnow\<close> yields at the insert.
\<close>

definition create_transaction ::
  "db \<Rightarrow> datetime \<Rightarrow> int \<Rightarrow> TransactionType \<Rightarrow> real \<Rightarrow> db \<times> Transaction" where
  "create_transaction d now aid ty amt =
     (let t = \<lparr>txn_id = next_id (map txn_id (transactions d)), account_id = aid,
                txn_type = ty, amount = amt, timestamp = now\<rparr>
      in (d\<lparr>transactions := transactions d @ [t],
            writes := writes d @ [TransactionInsert (txn_id t)]\<rparr>, t))"

text \<open>
  \<open>create_account\<close>: the account row is committed first; the DEPOSIT row follows only
  for a positive initial balance. No check on the owner name is made here.
\<close>

definition create_account ::
  "db \<Rightarrow> datetime \<Rightarrow> datetime \<Rightarrow> string \<Rightarrow> real \<Rightarrow> db \<times> Account" where
  "create_account d now now' owner initial_balance =
     (let account = \<lparr>acc_id = next_id (map acc_id (accounts d)), owner_name = owner,
                      balance = Fin initial_balance, created_at = now\<rparr>;
          d1 = d\<lparr>accounts := accounts d @ [account],
                 writes := writes d @ [AccountInsert (acc_id account)]\<rparr>
      in if initial_balance > 0
         then (fst (create_transaction d1 now' (acc_id account) DEPOSIT initial_balance), account)
         else (d1, account))"

text \<open>
  \<open>update_account_balance\<close>: the attribute assignment, then the commit, then the refresh;
  the refreshed object is returned. When the assigned balance equals the one the object
  holds, the commit has nothing to flush and no row is written; otherwise it issues the
  UPDATE of the row with the object's primary key.
\<close>

definition update_account_balance :: "db \<Rightarrow> Account \<Rightarrow> pyfloat \<Rightarrow> db \<times> Account" where
  "update_account_balance d account new_balance =
     (if new_balance = balance account then (d, account)
      else
        (d\<lparr>accounts := map (\<lambda>r. if acc_id r = acc_id account then r\<lparr>balance := new_balance\<rparr>
                                 else r) (accounts d),
           writes := writes d @ [AccountUpdate (acc_id account)]\<rparr>,
         account\<lparr>balance := new_balance\<rparr>))"

text \<open>
  \<open>order_by(Transaction.timestamp.desc())\<close>: latest timestamp first. SQL leaves the order
  of rows with equal timestamps open; here the later insert comes first, and no theorem
  below depends on that choice.
\<close>

definition order_by_timestamp_desc :: "Transaction list \<Rightarrow> Transaction list" where
  "order_by_timestamp_desc ts = rev (sort_key timestamp ts)"

text \<open>
  \<open>limit\<close> and \<open>offset\<close> are row counts of the SQL LIMIT and OFFSET clauses, hence
  natural numbers; the defaults 50 and 0 are supplied by the callers below.
\<close>

definition get_transactions_by_account :: "db \<Rightarrow> int \<Rightarrow> nat \<Rightarrow> nat \<Rightarrow> Transaction list" where
  "get_transactions_by_account d aid limit offset =
     take limit (drop offset
       (order_by_timestamp_desc (filter (\<lambda>t. account_id t = aid) (transactions d))))"

definition get_transaction_count_by_account :: "db \<Rightarrow> int \<Rightarrow> nat" where
  "get_transaction_count_by_account d aid =
     length (filter (\<lambda>t. account_id t = aid) (transactions d))"

definition deposit :: "db \<Rightarrow> datetime \<Rightarrow> Account \<Rightarrow> real \<Rightarrow> db \<times> Account" where
  "deposit d now account amt =
     (let new_balance = fadd (balance account) amt;
          (d1, account1) = update_account_balance d account new_balance;
          (d2, t) = create_transaction d1 now (acc_id account1) DEPOSIT amt
      in (d2, account1))"

text \<open>\<open>withdraw\<close> returns \<open>None\<close> (the source's \<open>None\<close>) when the balance is too small.\<close>

definition withdraw :: "db \<Rightarrow> datetime \<Rightarrow> Account \<Rightarrow> real \<Rightarrow> db \<times> Account option" where
  "withdraw d now account amt =
     (if flt (balance account) amt then (d, None)
      else
        (let new_balance = fsub (balance account) amt;
             (d1, account1) = update_account_balance d account new_balance;
             (d2, t) = create_transaction d1 now (acc_id account1) WITHDRAWAL amt
         in (d2, Some account1)))"

section \<open>Request validation (schemas.py)\<close>

text \<open>
  Python's \<open>str.strip()\<close> removes leading and trailing whitespace. A \<open>string\<close> here is a
  list of code points below 256; among those, \<open>str.isspace\<close> holds of 9 to 13, 28 to 32,
  133 and 160.
\<close>

definition isspace :: "char \<Rightarrow> bool" where
  "isspace c = (let n = (of_char c :: nat)
                in (9 \<le> n \<and> n \<le> 13) \<or> (28 \<le> n \<and> n \<le> 32) \<or> n = 133 \<or> n = 160)"

definition strip :: "string \<Rightarrow> string" where
  "strip s = rev (dropWhile isspace (rev (dropWhile isspace s)))"

text \<open>
  \<open>AccountCreate.validate_owner_name\<close>, the field validator: \<open>None\<close> is its ValueError.
\<close>

definition validate_owner_name :: "string \<Rightarrow> string option" where
  "validate_owner_name v = (let v' = strip v in if v' = [] then None else Some v')"

text \<open>
  The \<open>AccountCreate\<close> model applied to a request body. \<open>owner_name\<close> is required and
  its length bounds (\<open>min_length=1\<close>, \<open>max_length=255\<close>) are checked on the value as
  sent, before the field validator runs; \<open>initial_balance\<close> defaults to 0 and must be
  \<open>ge=0\<close>. \<open>None\<close> is the validation error; otherwise the validated fields are returned.
\<close>

definition AccountCreate :: "string option \<Rightarrow> real option \<Rightarrow> (string \<times> real) option" where
  "AccountCreate owner initial =
     (case owner of
        None \<Rightarrow> None
      | Some v \<Rightarrow>
          if length v < 1 \<or> 255 < length v then None
          else (case validate_owner_name v of
                  None \<Rightarrow> None
                | Some v' \<Rightarrow>
                    (let b = (case initial of None \<Rightarrow> 0 | Some x \<Rightarrow> x)
                     in if 0 \<le> b then Some (v', b) else None)))"

text \<open>\<open>DepositRequest\<close> and \<open>WithdrawRequest\<close>: \<open>amount\<close> is required and \<open>gt=0\<close>.\<close>

definition DepositRequest :: "real option \<Rightarrow> real option" where
  "DepositRequest amt = (case amt of None \<Rightarrow> None | Some x \<Rightarrow> if 0 < x then Some x else None)"

definition WithdrawRequest :: "real option \<Rightarrow> real option" where
  "WithdrawRequest amt = (case amt of None \<Rightarrow> None | Some x \<Rightarrow> if 0 < x then Some x else None)"

section \<open>HTTP front-end (main.py)\<close>

text \<open>
  The handlers of main.py as functions of the store, from the point where the API-key
  dependency has succeeded; logging is left out. A body or query parameter that fails
  its schema is answered with \<open>RequestValidationError\<close> (status 422) before the handler
  body runs. \<open>AttributeError\<close> is the Python exception of \<open>account.id\<close> on \<open>None\<close>. A
  response is the object the handler returns or the exception it raises; how the
  framework renders it afterwards is not modelled.
\<close>

datatype response =
    AccountResponse Account
  | MessageResponse string int pyfloat
  | BalanceResponse int string pyfloat
  | TransactionListResponse int "Transaction list" nat
  | HTTPException nat string
  | RequestValidationError
  | AttributeError

definition main_create_account ::
  "db \<Rightarrow> datetime \<Rightarrow> datetime \<Rightarrow> string option \<Rightarrow> real option \<Rightarrow> db \<times> response" where
  "main_create_account d now now' owner initial =
     (case AccountCreate owner initial of
        None \<Rightarrow> (d, RequestValidationError)
      | Some (name, initial_balance) \<Rightarrow>
          (case get_account_by_owner_name d name of
             Some existing_account \<Rightarrow>
               (d, HTTPException 409 ''Account with this owner name already exists'')
           | None \<Rightarrow>
               (let (d', account) = create_account d now now' name initial_balance
                in (d', AccountResponse account))))"

definition main_deposit :: "db \<Rightarrow> datetime \<Rightarrow> int \<Rightarrow> real option \<Rightarrow> db \<times> response" where
  "main_deposit d now aid body =
     (case DepositRequest body of
        None \<Rightarrow> (d, RequestValidationError)
      | Some amt \<Rightarrow>
          (case get_account_by_id d aid of
             None \<Rightarrow> (d, HTTPException 404 ''Account not found'')
           | Some account \<Rightarrow>
               (let (d', account') = deposit d now account amt
                in (d', MessageResponse ''Deposit successful'' (acc_id account') (balance account')))))"

definition main_withdraw :: "db \<Rightarrow> datetime \<Rightarrow> int \<Rightarrow> real option \<Rightarrow> db \<times> response" where
  "main_withdraw d now aid body =
     (case WithdrawRequest body of
        None \<Rightarrow> (d, RequestValidationError)
      | Some amt \<Rightarrow>
          (case get_account_by_id d aid of
             None \<Rightarrow> (d, HTTPException 404 ''Account not found'')
           | Some account \<Rightarrow>
               if flt (balance account) amt then (d, HTTPException 400 ''Insufficient funds'')
               else
                 (case withdraw d now account amt of
                    (d', None) \<Rightarrow> (d', AttributeError)
                  | (d', Some account') \<Rightarrow>
                      (d', MessageResponse ''Withdrawal successful'' (acc_id account')
                             (balance account')))))"

definition main_get_balance :: "db \<Rightarrow> int \<Rightarrow> response" where
  "main_get_balance d aid =
     (case get_account_by_id d aid of
        None \<Rightarrow> HTTPException 404 ''Account not found''
      | Some account \<Rightarrow> BalanceResponse (acc_id account) (owner_name account) (balance account))"

text \<open>
  \<open>limit: int = Query(default=50, ge=1, le=100)\<close> and \<open>offset: int = Query(default=0, ge=0)\<close>.
\<close>

definition main_get_transactions :: "db \<Rightarrow> int \<Rightarrow> int option \<Rightarrow> int option \<Rightarrow> response" where
  "main_get_transactions d aid limit_q offset_q =
     (let limit = (case limit_q of None \<Rightarrow> 50 | Some l \<Rightarrow> l);
          offset = (case offset_q of None \<Rightarrow> 0 | Some off \<Rightarrow> off)
      in if limit < 1 \<or> 100 < limit \<or> offset < 0 then RequestValidationError
         else
           (case get_account_by_id d aid of
              None \<Rightarrow> HTTPException 404 ''Account not found''
            | Some account \<Rightarrow>
                TransactionListResponse aid
                  (get_transactions_by_account d aid (nat limit) (nat offset))
                  (get_transaction_count_by_account d aid)))"

section \<open>Tool-invocation front-end (mcp_server.py)\<close>

text \<open>
  The \<open>arguments\<close> dictionary of a tool call, with the keys and value types the tools'
  input schemas declare; an absent key is \<open>None\<close>.
\<close>

record arguments =
  arg_owner_name :: "string option"
  arg_initial_balance :: "real option"
  arg_account_id :: "int option"
  arg_amount :: "real option"
  arg_limit :: "nat option"

text \<open>
  The text returned by a tool call: an error line as the source writes it, or the result
  dictionary that \<open>json.dumps\<close> renders. \<open>Raised\<close> is an exception leaving \<open>call_tool\<close>.
\<close>

datatype TextContent =
    ErrorText string
  | AccountCreated Account
  | DepositDone int pyfloat
  | WithdrawalDone int pyfloat
  | BalanceResult int string pyfloat
  | TransactionsResult int nat "Transaction list"
  | AccountsResult nat "Account list"
  | Raised

text \<open>
  \<open>crud.get_account_by_id(db, arguments.get("account_id"))\<close>: the comparison of the
  primary key with an absent value selects no row.
\<close>

definition get_account_by_arg :: "db \<Rightarrow> int option \<Rightarrow> Account option" where
  "get_account_by_arg d account_id_arg =
     (case account_id_arg of None \<Rightarrow> None | Some i \<Rightarrow> get_account_by_id d i)"

definition call_tool ::
  "db \<Rightarrow> datetime \<Rightarrow> datetime \<Rightarrow> string \<Rightarrow> arguments \<Rightarrow> db \<times> TextContent" where
  "call_tool d now now' name args =
     (if name = ''create_account'' then
        (let owner = strip (case arg_owner_name args of None \<Rightarrow> [] | Some v \<Rightarrow> v);
             initial_balance = (case arg_initial_balance args of None \<Rightarrow> 0 | Some x \<Rightarrow> x)
         in if owner = [] then (d, ErrorText ''Error: Owner name cannot be empty'')
            else if initial_balance < 0
              then (d, ErrorText ''Error: Initial balance cannot be negative'')
            else (case get_account_by_owner_name d owner of
                    Some existing \<Rightarrow>
                      (d, ErrorText ''Error: Account with this owner name already exists'')
                  | None \<Rightarrow>
                      (let (d', account) = create_account d now now' owner initial_balance
                       in (d', AccountCreated account))))
      else if name = ''deposit'' then
        (case arg_amount args of
           None \<Rightarrow> (d, ErrorText ''Error: Amount must be a positive number'')
         | Some amt \<Rightarrow>
             if amt \<le> 0 then (d, ErrorText ''Error: Amount must be a positive number'')
             else (case get_account_by_arg d (arg_account_id args) of
                     None \<Rightarrow> (d, ErrorText ''Error: Account not found'')
                   | Some account \<Rightarrow>
                       (let (d', account') = deposit d now account amt
                        in (d', DepositDone (acc_id account') (balance account')))))
      else if name = ''withdraw'' then
        (case arg_amount args of
           None \<Rightarrow> (d, ErrorText ''Error: Amount must be a positive number'')
         | Some amt \<Rightarrow>
             if amt \<le> 0 then (d, ErrorText ''Error: Amount must be a positive number'')
             else (case get_account_by_arg d (arg_account_id args) of
                     None \<Rightarrow> (d, ErrorText ''Error: Account not found'')
                   | Some account \<Rightarrow>
                       if flt (balance account) amt
                       then (d, ErrorText ''Error: Insufficient funds'')
                       else (case withdraw d now account amt of
                               (d', None) \<Rightarrow> (d', Raised)
                             | (d', Some account') \<Rightarrow>
                                 (d', WithdrawalDone (acc_id account') (balance account')))))
      else if name = ''get_balance'' then
        (case get_account_by_arg d (arg_account_id args) of
           None \<Rightarrow> (d, ErrorText ''Error: Account not found'')
         | Some account \<Rightarrow>
             (d, BalanceResult (acc_id account) (owner_name account) (balance account)))
      else if name = ''get_transactions'' then
        (let limit = (case arg_limit args of None \<Rightarrow> 50 | Some l \<Rightarrow> l)
         in case get_account_by_arg d (arg_account_id args) of
              None \<Rightarrow> (d, ErrorText ''Error: Account not found'')
            | Some account \<Rightarrow>
                (case arg_account_id args of
                   None \<Rightarrow> (d, Raised)
                 | Some account_id_arg \<Rightarrow>
                     (d, TransactionsResult account_id_arg
                           (get_transaction_count_by_account d account_id_arg)
                           (get_transactions_by_account d account_id_arg limit 0))))
      else if name = ''list_accounts'' then
        (d, AccountsResult (length (accounts d)) (accounts d))
      else (d, ErrorText (''Error: Unknown tool '' @ [CHR 0x27] @ name @ [CHR 0x27])))"

section \<open>Histories\<close>

text \<open>
  The ledger of an account: the sum of the amounts of its recorded transactions of one
  type, and the ledger replayed, that is the float reached from zero by adding each
  DEPOSIT amount and subtracting each WITHDRAWAL amount of the account in the order the
  transactions were recorded, with the arithmetic of the code.
\<close>

definition ledger_sum :: "db \<Rightarrow> int \<Rightarrow> TransactionType \<Rightarrow> real" where
  "ledger_sum d aid ty =
     sum_list (map amount (filter (\<lambda>t. account_id t = aid \<and> txn_type t = ty) (transactions d)))"

definition replay_step :: "pyfloat \<Rightarrow> Transaction \<Rightarrow> pyfloat" where
  "replay_step b t = (if txn_type t = DEPOSIT then fadd b (amount t) else fsub b (amount t))"

definition ledger_replay :: "db \<Rightarrow> int \<Rightarrow> pyfloat" where
  "ledger_replay d aid =
     foldl replay_step (Fin 0) (filter (\<lambda>t. account_id t = aid) (transactions d))"

text \<open>
  A history of core operations as the spec names them (section 4.1), each with the clock
  readings of its inserts. An operation of the history is successful when the core call
  it stands for is made within its contract and returns an account: CreateAccount with a
  non-negative initial balance, Deposit and Withdraw on an account found by its id (as
  both front-ends resolve it), Withdraw not answered with \<open>None\<close>.
\<close>

datatype core_op =
    CreateAccount datetime datetime string real
  | Deposit datetime int real
  | Withdraw datetime int real

fun apply_op :: "db \<Rightarrow> core_op \<Rightarrow> db option" where
  "apply_op d (CreateAccount now now' owner initial) =
     (if 0 \<le> initial then Some (fst (create_account d now now' owner initial)) else None)"
| "apply_op d (Deposit now aid amt) =
     (case get_account_by_id d aid of
        None \<Rightarrow> None
      | Some account \<Rightarrow> Some (fst (deposit d now account amt)))"
| "apply_op d (Withdraw now aid amt) =
     (case get_account_by_id d aid of
        None \<Rightarrow> None
      | Some account \<Rightarrow>
          (case withdraw d now account amt of
             (d', None) \<Rightarrow> None
           | (d', Some account') \<Rightarrow> Some d'))"

fun run_ops :: "db \<Rightarrow> core_op list \<Rightarrow> db option" where
  "run_ops d [] = Some d"
| "run_ops d (op # ops) = (case apply_op d op of None \<Rightarrow> None | Some d' \<Rightarrow> run_ops d' ops)"

text \<open>The amounts of a history are floats, as the arguments of the core calls are.\<close>

fun op_amount :: "core_op \<Rightarrow> real" where
  "op_amount (CreateAccount now now' owner initial) = initial"
| "op_amount (Deposit now aid amt) = amt"
| "op_amount (Withdraw now aid amt) = amt"

definition float_amounts :: "core_op list \<Rightarrow> bool" where
  "float_amounts ops = list_all (\<lambda>op. is_double (op_amount op)) ops"

text \<open>A history of requests served by the two front-ends, in the order of arrival.\<close>

datatype request =
    PostAccounts datetime datetime "string option" "real option"
  | PostDeposit datetime int "real option"
  | PostWithdraw datetime int "real option"
  | GetBalance int
  | GetTransactions int "int option" "int option"
  | ToolCall datetime datetime string arguments

fun serve :: "db \<Rightarrow> request \<Rightarrow> db" where
  "serve d (PostAccounts now now' owner initial) = fst (main_create_account d now now' owner initial)"
| "serve d (PostDeposit now aid body) = fst (main_deposit d now aid body)"
| "serve d (PostWithdraw now aid body) = fst (main_withdraw d now aid body)"
| "serve d (GetBalance aid) = d"
| "serve d (GetTransactions aid limit_q offset_q) = d"
| "serve d (ToolCall now now' name args) = fst (call_tool d now now' name args)"

fun serve_all :: "db \<Rightarrow> request list \<Rightarrow> db" where
  "serve_all d [] = d"
| "serve_all d (r # rs) = serve_all (serve d r) rs"

text \<open>
  Two properties of a store used in the proofs: every transaction refers to a stored
  account (the foreign key of models.py), and every stored balance is the account's
  ledger replayed.
\<close>

definition references_accounts :: "db \<Rightarrow> bool" where
  "references_accounts d =
     (\<forall>t \<in> set (transactions d). account_id t \<in> set (map acc_id (accounts d)))"

definition ledger_consistent :: "db \<Rightarrow> bool" where
  "ledger_consistent d =
     (\<forall>a \<in> set (accounts d). balance a = ledger_replay d (acc_id a))"

text \<open>
  The outcome of a request in the terms of the spec's error taxonomy (section 7), read
  off the HTTP response (404, 409 and 400 are the statuses the handlers raise for an
  unknown account, a duplicate owner and insufficient funds) and off the tool's text.
\<close>

datatype outcome =
  Succeeded | InvalidInput | NotFound | DuplicateOwner | InsufficientFunds | Fault

fun http_outcome :: "response \<Rightarrow> outcome" where
  "http_outcome (AccountResponse a) = Succeeded"
| "http_outcome (MessageResponse m i b) = Succeeded"
| "http_outcome (BalanceResponse i n b) = Succeeded"
| "http_outcome (TransactionListResponse i ts n) = Succeeded"
| "http_outcome (HTTPException code detail) =
     (if code = 404 then NotFound else if code = 409 then DuplicateOwner
      else if code = 400 then InsufficientFunds else Fault)"
| "http_outcome RequestValidationError = InvalidInput"
| "http_outcome AttributeError = Fault"

fun tool_outcome :: "TextContent \<Rightarrow> outcome" where
  "tool_outcome (ErrorText s) =
     (if s = ''Error: Account not found'' then NotFound
      else if s = ''Error: Account with this owner name already exists'' then DuplicateOwner
      else if s = ''Error: Insufficient funds'' then InsufficientFunds
      else InvalidInput)"
| "tool_outcome Raised = Fault"
| "tool_outcome (AccountCreated a) = Succeeded"
| "tool_outcome (DepositDone i b) = Succeeded"
| "tool_outcome (WithdrawalDone i b) = Succeeded"
| "tool_outcome (BalanceResult i n b) = Succeeded"
| "tool_outcome (TransactionsResult i n ts) = Succeeded"
| "tool_outcome (AccountsResult n as) = Succeeded"





text \<open>
  Two stores used in the examples: Alice's account, created with an initial balance of
  100, and Carol's, created with 10000000000000000, where neighbouring floats are 2
  apart.
\<close>

definition alice :: Account where
  "alice = \<lparr>acc_id = 1, owner_name = ''Alice'', balance = Fin 100, created_at = 1\<rparr>"

definition alice_db :: db where
  "alice_db =
     \<lparr>accounts = [alice],
      transactions =
        [\<lparr>txn_id = 1, account_id = 1, txn_type = DEPOSIT, amount = 100, timestamp = 2\<rparr>],
      writes = [AccountInsert 1, TransactionInsert 1]\<rparr>"

definition carol :: Account where
  "carol = \<lparr>acc_id = 1, owner_name = ''Carol'', balance = Fin 10000000000000000,
            created_at = 1\<rparr>"

definition carol_db :: db where
  "carol_db =
     \<lparr>accounts = [carol],
      transactions =
        [\<lparr>txn_id = 1, account_id = 1, txn_type = DEPOSIT, amount = 10000000000000000,
          timestamp = 2\<rparr>],
      writes = [AccountInsert 1, TransactionInsert 1]\<rparr>"

section \<open>Floats: evaluating the rounding\<close>

lemma floor_log2_eq:
  assumes "2 ^ n \<le> x" and "x < 2 ^ Suc n"
  shows "\<lfloor>log 2 x\<rfloor> = int n"
proof -
  have "(0::real) < 2 ^ n" by simp
  then have pos: "0 < x" using assms(1) by linarith
  have l: "real n \<le> log 2 x"
    using assms(1) pos by (simp add: le_log_iff powr_realpow)
  have u: "log 2 x < real n + 1"
  proof -
    have "x < 2 powr (real n + 1)"
      using assms(2) by (simp add: powr_add powr_realpow)
    then show ?thesis using pos by (simp add: log_less_iff)
  qed
  show ?thesis using l u by (simp add: floor_eq_iff)
qed

text \<open>
  For \<open>2 ^ n \<le> |x| < 2 ^ (n + 1)\<close> the spacing of the floats around \<open>x\<close> is
  \<open>2 ^ (n - 52)\<close>: a power of two when \<open>n\<close> is at least 52, its inverse below.
\<close>

lemma round_double_high:
  assumes "2 ^ n \<le> \<bar>x\<bar>" and "\<bar>x\<bar> < 2 ^ Suc n" and "52 \<le> n"
  shows "round_double x =
     (let y = of_int (round_half_even (x / 2 ^ (n - 52))) * 2 ^ (n - 52)
      in if 2 ^ 1024 \<le> \<bar>y\<bar> then (if 0 < x then PInf else NInf) else Fin y)"
proof -
  have "(0::real) < 2 ^ n" by simp
  then have "0 < \<bar>x\<bar>" using assms(1) by linarith
  then have nz: "x \<noteq> 0" by simp
  have fl: "\<lfloor>log 2 \<bar>x\<bar>\<rfloor> = int n" using floor_log2_eq[OF assms(1,2)] .
  have e: "binary64_exponent x = int (n - 52)"
    using assms(3) by (simp add: binary64_exponent_def fl)
  have p: "2 powr real (n - 52) = (2::real) ^ (n - 52)"
    by (simp add: powr_realpow)
  show ?thesis using nz by (simp add: round_double_def e p Let_def del: power_numeral)
qed

lemma round_double_low:
  assumes "2 ^ n \<le> \<bar>x\<bar>" and "\<bar>x\<bar> < 2 ^ Suc n" and "n \<le> 52"
  shows "round_double x =
     (let y = of_int (round_half_even (x * 2 ^ (52 - n))) / 2 ^ (52 - n)
      in if 2 ^ 1024 \<le> \<bar>y\<bar> then (if 0 < x then PInf else NInf) else Fin y)"
proof -
  have "(0::real) < 2 ^ n" by simp
  then have "0 < \<bar>x\<bar>" using assms(1) by linarith
  then have nz: "x \<noteq> 0" by simp
  have fl: "\<lfloor>log 2 \<bar>x\<bar>\<rfloor> = int n" using floor_log2_eq[OF assms(1,2)] .
  have e: "binary64_exponent x = - int (52 - n)"
    using assms(3) by (simp add: binary64_exponent_def fl)
  have p: "2 powr - real (52 - n) = 1 / (2::real) ^ (52 - n)"
    by (simp add: powr_minus powr_realpow divide_simps)
  show ?thesis using nz by (simp add: round_double_def e p Let_def)
qed

lemma round_double_0: "round_double 0 = Fin 0"
  by (simp add: round_double_def)

lemma round_double_1: "round_double 1 = Fin 1"
  using round_double_low[of 0 1] by (simp add: round_half_even_def)

lemma round_double_30: "round_double 30 = Fin 30"
  using round_double_low[of 4 30] by (simp add: round_half_even_def)

lemma round_double_50: "round_double 50 = Fin 50"
  using round_double_low[of 5 50] by (simp add: round_half_even_def)

lemma round_double_70: "round_double 70 = Fin 70"
  using round_double_low[of 6 70] by (simp add: round_half_even_def)

lemma round_double_100: "round_double 100 = Fin 100"
  using round_double_low[of 6 100] by (simp add: round_half_even_def)

lemma round_double_150: "round_double 150 = Fin 150"
  using round_double_low[of 7 150] by (simp add: round_half_even_def)

lemma round_double_200: "round_double 200 = Fin 200"
  using round_double_low[of 7 200] by (simp add: round_half_even_def)

text \<open>
  From \<open>2 ^ 53\<close> to \<open>2 ^ 54\<close> the floats are the even integers: 10000000000000000 is
  one, its two neighbours in the integers are not, and both round to it.
\<close>

lemma round_double_1e16: "round_double 10000000000000000 = Fin 10000000000000000"
  using round_double_high[of 53 10000000000000000] by (simp add: round_half_even_def)

lemma round_double_1e16_plus_1: "round_double 10000000000000001 = Fin 10000000000000000"
  using round_double_high[of 53 10000000000000001] by (simp add: round_half_even_def)

lemma round_double_1e16_minus_1: "round_double 9999999999999999 = Fin 10000000000000000"
  using round_double_high[of 53 9999999999999999] by (simp add: round_half_even_def)

text \<open>
  The float nearest to one tenth is \<open>3602879701896397 / 2 ^ 55\<close> and the float nearest to
  two tenths is twice that; their float sum is \<open>5404319552844596 / 2 ^ 54\<close>, which prints
  as 0.30000000000000004, and not the float nearest to three tenths,
  \<open>5404319552844595 / 2 ^ 54\<close>.
\<close>

lemma round_double_tenths:
  "round_double (3602879701896397 / 2 ^ 55 + 3602879701896397 / 2 ^ 54)
     = Fin (5404319552844596 / 2 ^ 54)"
proof -
  let ?x = "(10808639105689191 / 36028797018963968) :: real"
  have sum: "3602879701896397 / 2 ^ 55 + 3602879701896397 / 2 ^ 54 = ?x" by simp
  have fl: "\<lfloor>log 2 \<bar>?x\<bar>\<rfloor> = - 2"
  proof -
    have "2 powr (- 2) \<le> \<bar>?x\<bar>" by (simp add: powr_minus_divide)
    then have l: "- 2 \<le> log 2 \<bar>?x\<bar>" by (simp add: le_log_iff)
    have "\<bar>?x\<bar> < 2 powr (- 1)" by (simp add: powr_minus_divide)
    then have u: "log 2 \<bar>?x\<bar> < - 1" by (simp add: log_less_iff)
    show ?thesis using l u by (simp add: floor_eq_iff)
  qed
  have e: "binary64_exponent ?x = - 54"
    unfolding binary64_exponent_def fl by simp
  have p: "2 powr (- 54) = 1 / (2::real) ^ 54"
    using powr_realpow[of 2 54] by (simp add: powr_minus_divide)
  have "round_double ?x = Fin (5404319552844596 / 2 ^ 54)"
    by (simp add: round_double_def e p Let_def round_half_even_def)
  then show ?thesis by (simp only: sum)
qed

text \<open>
  The largest float is \<open>(2 ^ 53 - 1) * 2 ^ 971\<close>; added to itself it overflows.
\<close>

lemma round_double_overflow:
  "fadd (Fin ((2 ^ 53 - 1) * 2 ^ 971)) ((2 ^ 53 - 1) * 2 ^ 971) = PInf"
proof -
  let ?x = "((2 ^ 53 - 1) * 2 ^ 971 + (2 ^ 53 - 1) * 2 ^ 971) :: real"
  have x: "?x = (2 ^ 53 - 1) * 2 ^ 972" by simp
  have lo: "2 ^ 1024 \<le> \<bar>?x\<bar>" and hi: "\<bar>?x\<bar> < 2 ^ Suc 1024"
    by simp_all
  have "round_double ?x = PInf"
    using round_double_high[OF lo hi] by (simp add: round_half_even_def)
  then show ?thesis by simp
qed

lemmas float_examples =
  round_double_0 round_double_1 round_double_30 round_double_50 round_double_70
  round_double_100 round_double_150 round_double_200 round_double_1e16
  round_double_1e16_plus_1 round_double_1e16_minus_1

section \<open>Auxiliary facts about the store\<close>

lemma foldr_max_ge: "i \<in> set ids \<Longrightarrow> i \<le> foldr max ids (0::int)"
  by (induction ids) auto

lemma next_id_fresh: "next_id ids \<notin> set ids"
  using foldr_max_ge[of "next_id ids" ids] by (auto simp: next_id_def)

lemma find_Some_mem: "find P xs = Some a \<Longrightarrow> a \<in> set xs \<and> P a"
  by (induction xs) (auto split: if_splits)


lemma get_account_by_id_mem:
  "get_account_by_id d i = Some account \<Longrightarrow> account \<in> set (accounts d) \<and> acc_id account = i"
  using find_Some_mem[of "\<lambda>a. acc_id a = i" "accounts d" account]
  by (simp add: get_account_by_id_def)

lemma acc_ids_update [simp]:
  "map acc_id (map (\<lambda>r. if acc_id r = k then r\<lparr>balance := b\<rparr> else r) xs) = map acc_id xs"
  by (induction xs) auto

lemma owner_names_update [simp]:
  "map owner_name (map (\<lambda>r. if acc_id r = k then r\<lparr>balance := b\<rparr> else r) xs)
     = map owner_name xs"
  by (induction xs) auto

lemma create_account_db:
  "fst (create_account d now now' owner initial) =
     d\<lparr>accounts := accounts d @
         [\<lparr>acc_id = next_id (map acc_id (accounts d)), owner_name = owner,
           balance = Fin initial, created_at = now\<rparr>],
       transactions := transactions d @
         (if 0 < initial
          then [\<lparr>txn_id = next_id (map txn_id (transactions d)),
                 account_id = next_id (map acc_id (accounts d)),
                 txn_type = DEPOSIT, amount = initial, timestamp = now'\<rparr>]
          else []),
       writes := writes d @ AccountInsert (next_id (map acc_id (accounts d))) #
         (if 0 < initial then [TransactionInsert (next_id (map txn_id (transactions d)))]
          else [])\<rparr>"
  by (simp add: create_account_def create_transaction_def Let_def)

lemma create_account_result:
  "snd (create_account d now now' owner initial) =
     \<lparr>acc_id = next_id (map acc_id (accounts d)), owner_name = owner,
      balance = Fin initial, created_at = now\<rparr>"
  by (simp add: create_account_def Let_def)

text \<open>
  The store after \<open>update_account_balance\<close> followed by \<open>create_transaction\<close>, which is
  what \<open>deposit\<close> and an accepted \<open>withdraw\<close> do: the account rows are rewritten and an
  account update is issued only when the new balance differs from the object's.
\<close>

lemma update_then_record:
  "fst (create_transaction (fst (update_account_balance d account nb)) now
          (acc_id (snd (update_account_balance d account nb))) ty amt) =
     d\<lparr>accounts :=
         (if nb = balance account then accounts d
          else map (\<lambda>r. if acc_id r = acc_id account then r\<lparr>balance := nb\<rparr> else r)
                 (accounts d)),
       transactions := transactions d @
         [\<lparr>txn_id = next_id (map txn_id (transactions d)), account_id = acc_id account,
           txn_type = ty, amount = amt, timestamp = now\<rparr>],
       writes := writes d @
         (if nb = balance account then [] else [AccountUpdate (acc_id account)]) @
         [TransactionInsert (next_id (map txn_id (transactions d)))]\<rparr>"
  by (simp add: update_account_balance_def create_transaction_def Let_def)


lemma deposit_db:
  "fst (deposit d now account amt) =
     d\<lparr>accounts :=
         (if fadd (balance account) amt = balance account then accounts d
          else map (\<lambda>r. if acc_id r = acc_id account
                        then r\<lparr>balance := fadd (balance account) amt\<rparr> else r) (accounts d)),
       transactions := transactions d @
         [\<lparr>txn_id = next_id (map txn_id (transactions d)), account_id = acc_id account,
           txn_type = DEPOSIT, amount = amt, timestamp = now\<rparr>],
       writes := writes d @
         (if fadd (balance account) amt = balance account then []
          else [AccountUpdate (acc_id account)]) @
         [TransactionInsert (next_id (map txn_id (transactions d)))]\<rparr>"
  using update_then_record[of d account "fadd (balance account) amt" now DEPOSIT amt]
  by (simp add: deposit_def Let_def case_prod_beta)


lemma withdraw_rejected:
  "flt (balance account) amt \<Longrightarrow> withdraw d now account amt = (d, None)"
  by (simp add: withdraw_def)

lemma withdraw_db:
  "\<not> flt (balance account) amt \<Longrightarrow> fst (withdraw d now account amt) =
     d\<lparr>accounts :=
         (if fsub (balance account) amt = balance account then accounts d
          else map (\<lambda>r. if acc_id r = acc_id account
                        then r\<lparr>balance := fsub (balance account) amt\<rparr> else r) (accounts d)),
       transactions := transactions d @
         [\<lparr>txn_id = next_id (map txn_id (transactions d)), account_id = acc_id account,
           txn_type = WITHDRAWAL, amount = amt, timestamp = now\<rparr>],
       writes := writes d @
         (if fsub (balance account) amt = balance account then []
          else [AccountUpdate (acc_id account)]) @
         [TransactionInsert (next_id (map txn_id (transactions d)))]\<rparr>"
  using update_then_record[of d account "fsub (balance account) amt" now WITHDRAWAL amt]
  by (simp add: withdraw_def Let_def case_prod_beta)



section \<open>The balance and the ledger\<close>

lemma ledger_replay_fresh:
  assumes "references_accounts d" and "i \<notin> set (map acc_id (accounts d))"
  shows "filter (\<lambda>t. account_id t = i) (transactions d) = []"
  using assms by (auto simp: references_accounts_def filter_empty_conv)

lemma ledger_replay_append:
  "ledger_replay (d\<lparr>accounts := as, transactions := transactions d @ [t], writes := w\<rparr>) i =
     (if account_id t = i then replay_step (ledger_replay d i) t else ledger_replay d i)"
  by (simp add: ledger_replay_def)

lemma ledger_replay_accounts:
  "ledger_replay (d\<lparr>accounts := as, transactions := transactions d, writes := w\<rparr>) i =
     ledger_replay d i"
  by (simp add: ledger_replay_def)

lemma references_accounts_create_account:
  "references_accounts d \<Longrightarrow> references_accounts (fst (create_account d now now' owner initial))"
  by (auto simp: create_account_db references_accounts_def)

lemma ledger_consistent_create_account:
  assumes "references_accounts d" and "ledger_consistent d" and "0 \<le> initial"
    and "is_double initial"
  shows "ledger_consistent (fst (create_account d now now' owner initial))"
proof -
  let ?n = "next_id (map acc_id (accounts d))"
  have fresh: "?n \<notin> set (map acc_id (accounts d))" by (rule next_id_fresh)
  have z: "ledger_replay d ?n = Fin 0"
    using ledger_replay_fresh[OF assms(1) fresh] by (simp add: ledger_replay_def)
  have ne: "acc_id a \<noteq> ?n" if "a \<in> set (accounts d)" for a
    using fresh that by (metis image_eqI set_map)
  have old: "balance a = ledger_replay d (acc_id a)" if "a \<in> set (accounts d)" for a
    using assms(2) that by (simp add: ledger_consistent_def)
  show ?thesis
  proof (cases "0 < initial")
    case True
    have first: "replay_step (Fin 0)
        \<lparr>txn_id = k, account_id = ?n, txn_type = DEPOSIT, amount = initial, timestamp = now'\<rparr>
        = Fin initial" for k
      using assms(4) by (simp add: replay_step_def is_double_def)
    show ?thesis
      unfolding ledger_consistent_def create_account_db
      using True z old first
      by (auto simp: ledger_replay_append dest: ne)
  next
    case False
    with assms(3) have i0: "initial = 0" by simp
    show ?thesis
      unfolding ledger_consistent_def create_account_db
      using i0 z old by (auto simp: ledger_replay_def)
  qed
qed

lemma record_preserves:
  assumes "references_accounts d" and "ledger_consistent d" and "account \<in> set (accounts d)"
    and ts: "transactions d' = transactions d @ [t]" and t: "account_id t = acc_id account"
    and ids: "map acc_id (accounts d') = map acc_id (accounts d)"
    and rows: "\<And>r. r \<in> set (accounts d') \<Longrightarrow>
                 (acc_id r = acc_id account \<longrightarrow> balance r = replay_step (balance account) t) \<and>
                 (acc_id r \<noteq> acc_id account \<longrightarrow> r \<in> set (accounts d))"
  shows "references_accounts d' \<and> ledger_consistent d'"
proof -
  have old: "balance a = ledger_replay d (acc_id a)" if "a \<in> set (accounts d)" for a
    using assms(2) that by (simp add: ledger_consistent_def)
  have mem: "acc_id account \<in> set (map acc_id (accounts d))"
    using assms(3) by simp
  have r: "references_accounts d'"
    unfolding references_accounts_def ts ids
    using assms(1) mem t by (auto simp: references_accounts_def)
  have rp: "ledger_replay d' i =
      (if i = acc_id account then replay_step (ledger_replay d i) t else ledger_replay d i)" for i
    using t by (auto simp: ledger_replay_def ts)
  have l: "balance r = ledger_replay d' (acc_id r)" if "r \<in> set (accounts d')" for r
  proof (cases "acc_id r = acc_id account")
    case True
    then show ?thesis using rows[OF that] old[OF assms(3)] by (simp add: rp)
  next
    case False
    then show ?thesis using rows[OF that] old by (simp add: rp)
  qed
  show ?thesis using r l by (simp add: ledger_consistent_def)
qed

lemma balance_update_preserves:
  assumes "references_accounts d" and "ledger_consistent d" and "account \<in> set (accounts d)"
    and nb: "nb = replay_step (balance account)
                    \<lparr>txn_id = k, account_id = acc_id account, txn_type = ty, amount = amt,
                     timestamp = now\<rparr>"
  shows "references_accounts
          (d\<lparr>accounts :=
               (if nb = balance account then accounts d
                else map (\<lambda>r. if acc_id r = acc_id account then r\<lparr>balance := nb\<rparr> else r)
                       (accounts d)),
             transactions := transactions d @
               [\<lparr>txn_id = k, account_id = acc_id account, txn_type = ty, amount = amt,
                 timestamp = now\<rparr>],
             writes := w\<rparr>) \<and>
         ledger_consistent
          (d\<lparr>accounts :=
               (if nb = balance account then accounts d
                else map (\<lambda>r. if acc_id r = acc_id account then r\<lparr>balance := nb\<rparr> else r)
                       (accounts d)),
             transactions := transactions d @
               [\<lparr>txn_id = k, account_id = acc_id account, txn_type = ty, amount = amt,
                 timestamp = now\<rparr>],
             writes := w\<rparr>)"
proof -
  let ?t = "\<lparr>txn_id = k, account_id = acc_id account, txn_type = ty, amount = amt,
             timestamp = now\<rparr>"
  let ?d' = "d\<lparr>accounts :=
               (if nb = balance account then accounts d
                else map (\<lambda>r. if acc_id r = acc_id account then r\<lparr>balance := nb\<rparr> else r)
                       (accounts d)),
             transactions := transactions d @ [?t], writes := w\<rparr>"
  have old: "balance a = ledger_replay d (acc_id a)" if "a \<in> set (accounts d)" for a
    using assms(2) that by (simp add: ledger_consistent_def)
  have same: "balance a = balance account"
    if "a \<in> set (accounts d)" "acc_id a = acc_id account" for a
    using old[OF that(1)] old[OF assms(3)] that(2) by simp
  have ts: "transactions ?d' = transactions d @ [?t]" by simp
  have t: "account_id ?t = acc_id account" by simp
  have ids: "map acc_id (accounts ?d') = map acc_id (accounts d)" by simp
  have rows: "(acc_id r = acc_id account \<longrightarrow> balance r = replay_step (balance account) ?t) \<and>
              (acc_id r \<noteq> acc_id account \<longrightarrow> r \<in> set (accounts d))"
    if "r \<in> set (accounts ?d')" for r
  proof (cases "nb = balance account")
    case True
    then show ?thesis using that same nb by auto
  next
    case False
    then show ?thesis using that nb by auto
  qed
  show ?thesis
    using record_preserves[OF assms(1,2,3) ts t ids rows] by blast
qed

lemma deposit_preserves:
  assumes "references_accounts d" and "ledger_consistent d"
    and "get_account_by_id d i = Some account"
  shows "references_accounts (fst (deposit d now account amt)) \<and>
         ledger_consistent (fst (deposit d now account amt))"
  unfolding deposit_db
  using balance_update_preserves[OF assms(1,2), of account "fadd (balance account) amt" _
      DEPOSIT amt] get_account_by_id_mem[OF assms(3)]
  by (simp add: replay_step_def)

lemma withdraw_preserves:
  assumes "references_accounts d" and "ledger_consistent d"
    and "get_account_by_id d i = Some account"
    and "withdraw d now account amt = (d', Some account')"
  shows "references_accounts d' \<and> ledger_consistent d'"
proof -
  have nb: "\<not> flt (balance account) amt"
    using assms(4) by (auto simp: withdraw_def split: if_splits)
  have "d' = fst (withdraw d now account amt)" using assms(4) by simp
  then show ?thesis
    unfolding withdraw_db[OF nb]
    using balance_update_preserves[OF assms(1,2), of account "fsub (balance account) amt" _
        WITHDRAWAL amt] get_account_by_id_mem[OF assms(3)]
    by (simp add: replay_step_def)
qed

lemma apply_op_preserves:
  assumes "references_accounts d" and "ledger_consistent d" and "apply_op d op = Some d'"
    and "is_double (op_amount op)"
  shows "references_accounts d' \<and> ledger_consistent d'"
proof (cases op)
  case (CreateAccount now now' owner initial)
  then show ?thesis
    using assms references_accounts_create_account[of d now now' owner initial]
      ledger_consistent_create_account[of d initial now now' owner]
    by (auto split: if_splits)
next
  case (Deposit now aid amt)
  then show ?thesis
    using assms deposit_preserves[of d aid _ now amt]
    by (auto split: option.splits)
next
  case (Withdraw now aid amt)
  then show ?thesis
    using assms withdraw_preserves[of d aid _ now amt d']
    by (auto split: option.splits prod.splits)
qed

lemma run_ops_preserves:
  "references_accounts d \<Longrightarrow> ledger_consistent d \<Longrightarrow> run_ops d ops = Some d' \<Longrightarrow>
   float_amounts ops \<Longrightarrow> references_accounts d' \<and> ledger_consistent d'"
proof (induction ops arbitrary: d)
  case Nil
  then show ?case by simp
next
  case (Cons op ops)
  then show ?case
    using apply_op_preserves[of d op]
    by (auto simp: float_amounts_def split: option.splits)
qed

text \<open>
  C1 (as amended). After any history of successful CreateAccount, Deposit and Withdraw
  operations on float amounts, starting from the empty store, every account's balance
  equals its ledger replayed: the float reached from zero by adding each of its DEPOSIT
  amounts and subtracting each of its WITHDRAWAL amounts in the order recorded, every
  step rounded as the code's own addition and subtraction round. The initial balance is
  not added on top: when positive it is itself the account's first DEPOSIT transaction.
\<close>

theorem balance_matches_ledger:
  assumes "run_ops empty_db ops = Some d" and "float_amounts ops" and "a \<in> set (accounts d)"
  shows "balance a = ledger_replay d (acc_id a)"
proof -
  have "references_accounts empty_db" and "ledger_consistent empty_db"
    by (simp_all add: references_accounts_def ledger_consistent_def empty_db_def)
  then have "ledger_consistent d"
    using run_ops_preserves assms(1,2) by blast
  then show ?thesis
    using assms(3) by (simp add: ledger_consistent_def)
qed

text \<open>
  The scenario of the spec: Alice is created with 100, deposits 50 and withdraws 150; the
  ledger is DEPOSIT 100, DEPOSIT 50, WITHDRAWAL 150 and the balance is 0.
\<close>

theorem balance_matches_ledger_witness:
  "run_ops empty_db [CreateAccount 1 2 ''Alice'' 100, Deposit 3 1 50, Withdraw 4 1 150] =
     Some \<lparr>accounts = [alice\<lparr>balance := Fin 0\<rparr>],
           transactions =
             [\<lparr>txn_id = 1, account_id = 1, txn_type = DEPOSIT, amount = 100, timestamp = 2\<rparr>,
              \<lparr>txn_id = 2, account_id = 1, txn_type = DEPOSIT, amount = 50, timestamp = 3\<rparr>,
              \<lparr>txn_id = 3, account_id = 1, txn_type = WITHDRAWAL, amount = 150, timestamp = 4\<rparr>],
           writes = [AccountInsert 1, TransactionInsert 1, AccountUpdate 1, TransactionInsert 2,
                     AccountUpdate 1, TransactionInsert 3]\<rparr> \<and>
   float_amounts [CreateAccount 1 2 ''Alice'' 100, Deposit 3 1 50, Withdraw 4 1 150] \<and>
   balance (alice\<lparr>balance := Fin 0\<rparr>) =
     ledger_replay
       \<lparr>accounts = [alice\<lparr>balance := Fin 0\<rparr>],
        transactions =
          [\<lparr>txn_id = 1, account_id = 1, txn_type = DEPOSIT, amount = 100, timestamp = 2\<rparr>,
           \<lparr>txn_id = 2, account_id = 1, txn_type = DEPOSIT, amount = 50, timestamp = 3\<rparr>,
           \<lparr>txn_id = 3, account_id = 1, txn_type = WITHDRAWAL, amount = 150, timestamp = 4\<rparr>],
        writes = [AccountInsert 1, TransactionInsert 1, AccountUpdate 1, TransactionInsert 2,
                  AccountUpdate 1, TransactionInsert 3]\<rparr> 1"
proof -
  let ?ops = "[CreateAccount 1 2 ''Alice'' 100, Deposit 3 1 50, Withdraw 4 1 150]"
  let ?a = "alice\<lparr>balance := Fin 0\<rparr>"
  let ?d = "\<lparr>accounts = [?a],
        transactions =
          [\<lparr>txn_id = 1, account_id = 1, txn_type = DEPOSIT, amount = 100, timestamp = 2\<rparr>,
           \<lparr>txn_id = 2, account_id = 1, txn_type = DEPOSIT, amount = 50, timestamp = 3\<rparr>,
           \<lparr>txn_id = 3, account_id = 1, txn_type = WITHDRAWAL, amount = 150, timestamp = 4\<rparr>],
        writes = [AccountInsert 1, TransactionInsert 1, AccountUpdate 1, TransactionInsert 2,
                  AccountUpdate 1, TransactionInsert 3]\<rparr>"
  have run: "run_ops empty_db ?ops = Some ?d"
    by (simp add: empty_db_def create_account_def create_transaction_def next_id_def deposit_def
        withdraw_def update_account_balance_def get_account_by_id_def Let_def alice_def
        float_examples)
  have fl: "float_amounts ?ops"
    by (simp add: float_amounts_def is_double_def float_examples)
  have mem: "?a \<in> set (accounts ?d)" by simp
  from balance_matches_ledger[OF run fl mem] run fl show ?thesis
    by (simp add: alice_def)
qed

text \<open>
  C1 as stated fails, for two reasons that one history shows. Carol is created with
  10000000000000000 and deposits 1 twice. Her balance is still 10000000000000000, each
  sum having been rounded back to it, while her DEPOSIT transactions sum to
  10000000000000002: the balance is neither the initial balance plus that sum, nor
  that sum alone.
\<close>

theorem balance_initial_plus_ledger_counterexample:
  "float_amounts [CreateAccount 1 2 ''Carol'' 10000000000000000, Deposit 3 1 1, Deposit 4 1 1] \<and>
   run_ops empty_db [CreateAccount 1 2 ''Carol'' 10000000000000000, Deposit 3 1 1, Deposit 4 1 1]
     = Some (carol_db\<lparr>transactions := transactions carol_db @
               [\<lparr>txn_id = 2, account_id = 1, txn_type = DEPOSIT, amount = 1, timestamp = 3\<rparr>,
                \<lparr>txn_id = 3, account_id = 1, txn_type = DEPOSIT, amount = 1, timestamp = 4\<rparr>],
             writes := writes carol_db @ [TransactionInsert 2, TransactionInsert 3]\<rparr>) \<and>
   accounts carol_db = [carol] \<and> acc_id carol = 1 \<and>
   balance carol = Fin 10000000000000000 \<and>
   ledger_sum (carol_db\<lparr>transactions := transactions carol_db @
               [\<lparr>txn_id = 2, account_id = 1, txn_type = DEPOSIT, amount = 1, timestamp = 3\<rparr>,
                \<lparr>txn_id = 3, account_id = 1, txn_type = DEPOSIT, amount = 1, timestamp = 4\<rparr>],
             writes := writes carol_db @ [TransactionInsert 2, TransactionInsert 3]\<rparr>)
      1 DEPOSIT = 10000000000000002 \<and>
   ledger_sum (carol_db\<lparr>transactions := transactions carol_db @
               [\<lparr>txn_id = 2, account_id = 1, txn_type = DEPOSIT, amount = 1, timestamp = 3\<rparr>,
                \<lparr>txn_id = 3, account_id = 1, txn_type = DEPOSIT, amount = 1, timestamp = 4\<rparr>],
             writes := writes carol_db @ [TransactionInsert 2, TransactionInsert 3]\<rparr>)
      1 WITHDRAWAL = 0 \<and>
   balance carol \<noteq> Fin (10000000000000000 + 10000000000000002 - 0) \<and>
   balance carol \<noteq> Fin (10000000000000002 - 0)"
proof -
  have fl: "float_amounts
      [CreateAccount 1 2 ''Carol'' 10000000000000000, Deposit 3 1 1, Deposit 4 1 1]"
    by (simp add: float_amounts_def is_double_def float_examples)
  have run: "run_ops empty_db
      [CreateAccount 1 2 ''Carol'' 10000000000000000, Deposit 3 1 1, Deposit 4 1 1]
     = Some (carol_db\<lparr>transactions := transactions carol_db @
               [\<lparr>txn_id = 2, account_id = 1, txn_type = DEPOSIT, amount = 1, timestamp = 3\<rparr>,
                \<lparr>txn_id = 3, account_id = 1, txn_type = DEPOSIT, amount = 1, timestamp = 4\<rparr>],
             writes := writes carol_db @ [TransactionInsert 2, TransactionInsert 3]\<rparr>)"
    by (simp add: empty_db_def create_account_def create_transaction_def next_id_def deposit_def
        update_account_balance_def get_account_by_id_def Let_def carol_def carol_db_def
        float_examples)
  have rest: "accounts carol_db = [carol] \<and> acc_id carol = 1 \<and>
   balance carol = Fin 10000000000000000 \<and>
   ledger_sum (carol_db\<lparr>transactions := transactions carol_db @
               [\<lparr>txn_id = 2, account_id = 1, txn_type = DEPOSIT, amount = 1, timestamp = 3\<rparr>,
                \<lparr>txn_id = 3, account_id = 1, txn_type = DEPOSIT, amount = 1, timestamp = 4\<rparr>],
             writes := writes carol_db @ [TransactionInsert 2, TransactionInsert 3]\<rparr>)
      1 DEPOSIT = 10000000000000002 \<and>
   ledger_sum (carol_db\<lparr>transactions := transactions carol_db @
               [\<lparr>txn_id = 2, account_id = 1, txn_type = DEPOSIT, amount = 1, timestamp = 3\<rparr>,
                \<lparr>txn_id = 3, account_id = 1, txn_type = DEPOSIT, amount = 1, timestamp = 4\<rparr>],
             writes := writes carol_db @ [TransactionInsert 2, TransactionInsert 3]\<rparr>)
      1 WITHDRAWAL = 0 \<and>
   balance carol \<noteq> Fin (10000000000000000 + 10000000000000002 - 0) \<and>
   balance carol \<noteq> Fin (10000000000000002 - 0)"
    by (simp add: carol_def carol_db_def ledger_sum_def)
  show ?thesis using fl run rest by blast
qed

section \<open>The core operations\<close>

lemma alice_persisted: "get_account_by_id alice_db (acc_id alice) = Some alice"
  by (simp add: get_account_by_id_def alice_db_def alice_def)






text \<open>
  C6. \<open>create_account\<close> appends the new account row, with the given owner name and the
  initial balance as its balance, and then records a DEPOSIT transaction of the initial
  balance exactly when that balance is positive (the account insert is the first write,
  the transaction insert the second); otherwise, in particular for an initial balance
  of 0, no transaction is recorded.
\<close>

theorem create_account_initial_deposit:
  "accounts (fst (create_account d now now' owner initial))
     = accounts d @ [snd (create_account d now now' owner initial)] \<and>
   owner_name (snd (create_account d now now' owner initial)) = owner \<and>
   balance (snd (create_account d now now' owner initial)) = Fin initial \<and>
   (0 < initial \<longrightarrow>
      transactions (fst (create_account d now now' owner initial)) = transactions d @
        [\<lparr>txn_id = next_id (map txn_id (transactions d)),
          account_id = acc_id (snd (create_account d now now' owner initial)),
          txn_type = DEPOSIT, amount = initial, timestamp = now'\<rparr>] \<and>
      writes (fst (create_account d now now' owner initial)) = writes d @
        [AccountInsert (acc_id (snd (create_account d now now' owner initial))),
         TransactionInsert (next_id (map txn_id (transactions d)))]) \<and>
   (\<not> 0 < initial \<longrightarrow>
      transactions (fst (create_account d now now' owner initial)) = transactions d \<and>
      writes (fst (create_account d now now' owner initial)) = writes d @
        [AccountInsert (acc_id (snd (create_account d now now' owner initial)))])"
  by (simp add: create_account_db create_account_result)

theorem create_account_initial_deposit_witness:
  "(0::real) < 100 \<and>
   fst (create_account empty_db 1 2 ''Alice'' 100) = alice_db \<and>
   snd (create_account empty_db 1 2 ''Alice'' 100) = alice \<and>
   \<not> (0::real) < 0 \<and>
   accounts (fst (create_account alice_db 3 4 ''Bob'' 0)) =
     [alice, \<lparr>acc_id = 2, owner_name = ''Bob'', balance = Fin 0, created_at = 3\<rparr>] \<and>
   transactions (fst (create_account alice_db 3 4 ''Bob'' 0)) = transactions alice_db \<and>
   writes (fst (create_account alice_db 3 4 ''Bob'' 0)) = writes alice_db @ [AccountInsert 2]"
  using create_account_initial_deposit[of empty_db 1 2 "''Alice''" 100]
    create_account_initial_deposit[of alice_db 3 4 "''Bob''" 0]
  by (simp add: create_account_db create_account_result alice_def alice_db_def empty_db_def
      next_id_def)




text \<open>
  C8. Every page \<open>get_transactions_by_account\<close> returns is ordered by timestamp, latest
  first, and is the slice (skip \<open>offset\<close>, then at most \<open>limit\<close> rows) of the full
  ordered listing, which holds exactly the account's transactions;
  \<open>get_transaction_count_by_account\<close> is the number of the account's transactions and
  takes neither limit nor offset.
\<close>

theorem transactions_listed_latest_first:
  "sorted_wrt (\<lambda>x y. timestamp y \<le> timestamp x)
     (get_transactions_by_account d aid limit offset) \<and>
   get_transactions_by_account d aid limit offset =
     take limit (drop offset
       (get_transactions_by_account d aid (get_transaction_count_by_account d aid) 0)) \<and>
   mset (get_transactions_by_account d aid (get_transaction_count_by_account d aid) 0) =
     filter_mset (\<lambda>t. account_id t = aid) (mset (transactions d)) \<and>
   get_transaction_count_by_account d aid =
     size (filter_mset (\<lambda>t. account_id t = aid) (mset (transactions d)))"
proof -
  let ?rows = "filter (\<lambda>t. account_id t = aid) (transactions d)"
  have asc: "sorted_wrt (\<lambda>x y. timestamp x \<le> timestamp y) (sort_key timestamp ?rows)"
    using sorted_sort_key[of timestamp ?rows] by (simp add: sorted_map)
  have desc: "sorted_wrt (\<lambda>x y. timestamp y \<le> timestamp x) (order_by_timestamp_desc ?rows)"
    unfolding order_by_timestamp_desc_def using asc by (simp add: sorted_wrt_rev)
  have page: "sorted_wrt (\<lambda>x y. timestamp y \<le> timestamp x)
     (get_transactions_by_account d aid limit offset)"
    unfolding get_transactions_by_account_def
    using desc by (simp add: sorted_wrt_take sorted_wrt_drop)
  have len: "length (order_by_timestamp_desc ?rows) = length ?rows"
    by (simp add: order_by_timestamp_desc_def)
  have full: "get_transactions_by_account d aid (get_transaction_count_by_account d aid) 0 =
      order_by_timestamp_desc ?rows"
    using len by (simp add: get_transactions_by_account_def get_transaction_count_by_account_def)
  have slice: "get_transactions_by_account d aid limit offset =
     take limit (drop offset
       (get_transactions_by_account d aid (get_transaction_count_by_account d aid) 0))"
    unfolding full by (simp add: get_transactions_by_account_def)
  have perm: "mset (order_by_timestamp_desc ?rows) =
      filter_mset (\<lambda>t. account_id t = aid) (mset (transactions d))"
    by (simp add: order_by_timestamp_desc_def)
  have cnt: "get_transaction_count_by_account d aid =
     size (filter_mset (\<lambda>t. account_id t = aid) (mset (transactions d)))"
    unfolding get_transaction_count_by_account_def
    by (metis mset_filter size_mset)
  show ?thesis using page slice perm cnt unfolding full by simp
qed




section \<open>The front-ends\<close>

lemma isspace_space [simp]: "isspace CHR '' ''"
  by (simp add: isspace_def)




lemma call_tool_create_account:
  "call_tool d now now' ''create_account'' args =
     (let owner = strip (case arg_owner_name args of None \<Rightarrow> [] | Some v \<Rightarrow> v);
          initial_balance = (case arg_initial_balance args of None \<Rightarrow> 0 | Some x \<Rightarrow> x)
      in if owner = [] then (d, ErrorText ''Error: Owner name cannot be empty'')
         else if initial_balance < 0
           then (d, ErrorText ''Error: Initial balance cannot be negative'')
         else (case get_account_by_owner_name d owner of
                 Some existing \<Rightarrow>
                   (d, ErrorText ''Error: Account with this owner name already exists'')
               | None \<Rightarrow>
                   (let (d', account) = create_account d now now' owner initial_balance
                    in (d', AccountCreated account))))"
  by (simp add: call_tool_def)

lemma call_tool_deposit:
  "call_tool d now now' ''deposit'' args =
     (case arg_amount args of
        None \<Rightarrow> (d, ErrorText ''Error: Amount must be a positive number'')
      | Some amt \<Rightarrow>
          if amt \<le> 0 then (d, ErrorText ''Error: Amount must be a positive number'')
          else (case get_account_by_arg d (arg_account_id args) of
                  None \<Rightarrow> (d, ErrorText ''Error: Account not found'')
                | Some account \<Rightarrow>
                    (let (d', account') = deposit d now account amt
                     in (d', DepositDone (acc_id account') (balance account')))))"
  by (simp add: call_tool_def)

lemma call_tool_withdraw:
  "call_tool d now now' ''withdraw'' args =
     (case arg_amount args of
        None \<Rightarrow> (d, ErrorText ''Error: Amount must be a positive number'')
      | Some amt \<Rightarrow>
          if amt \<le> 0 then (d, ErrorText ''Error: Amount must be a positive number'')
          else (case get_account_by_arg d (arg_account_id args) of
                  None \<Rightarrow> (d, ErrorText ''Error: Account not found'')
                | Some account \<Rightarrow>
                    if flt (balance account) amt
                    then (d, ErrorText ''Error: Insufficient funds'')
                    else (case withdraw d now account amt of
                            (d', None) \<Rightarrow> (d', Raised)
                          | (d', Some account') \<Rightarrow>
                              (d', WithdrawalDone (acc_id account') (balance account')))))"
  by (simp add: call_tool_def)

lemma call_tool_get_transactions:
  "call_tool d now now' ''get_transactions'' args =
     (let limit = (case arg_limit args of None \<Rightarrow> 50 | Some l \<Rightarrow> l)
      in case get_account_by_arg d (arg_account_id args) of
           None \<Rightarrow> (d, ErrorText ''Error: Account not found'')
         | Some account \<Rightarrow>
             (case arg_account_id args of
                None \<Rightarrow> (d, Raised)
              | Some account_id_arg \<Rightarrow>
                  (d, TransactionsResult account_id_arg
                        (get_transaction_count_by_account d account_id_arg)
                        (get_transactions_by_account d account_id_arg limit 0))))"
  by (simp add: call_tool_def)

lemma call_tool_read_only:
  "name \<noteq> ''create_account'' \<Longrightarrow> name \<noteq> ''deposit'' \<Longrightarrow> name \<noteq> ''withdraw'' \<Longrightarrow>
   fst (call_tool d now now' name args) = d"
  by (simp add: call_tool_def split: option.splits)

lemma get_account_by_owner_name_None:
  "get_account_by_owner_name d n = None \<Longrightarrow> n \<notin> set (map owner_name (accounts d))"
  by (auto simp: get_account_by_owner_name_def find_None_iff)






lemma fst_case_withdraw:
  "fst (case p of (d', None) \<Rightarrow> (d', x) | (d', Some a) \<Rightarrow> (d', f a)) = fst p"
  by (cases p) (auto split: option.splits)

lemma owner_names_create_account:
  "map owner_name (accounts (fst (create_account d now now' n initial)))
     = map owner_name (accounts d) @ [n]"
  by (simp add: create_account_db)

lemma owner_names_deposit:
  "map owner_name (accounts (fst (deposit d now account amt))) = map owner_name (accounts d)"
  by (simp add: deposit_db)

lemma owner_names_withdraw:
  "map owner_name (accounts (fst (withdraw d now account amt))) = map owner_name (accounts d)"
  by (cases "flt (balance account) amt") (simp_all add: withdraw_db withdraw_rejected)

lemma distinct_main_create_account:
  assumes "distinct (map owner_name (accounts d))"
  shows "distinct (map owner_name (accounts (fst (main_create_account d now now' owner initial))))"
  using assms
  by (auto simp: main_create_account_def case_prod_beta owner_names_create_account
      split: option.splits dest: get_account_by_owner_name_None)

lemma owner_names_main_deposit:
  "map owner_name (accounts (fst (main_deposit d now aid body))) = map owner_name (accounts d)"
  by (simp add: main_deposit_def case_prod_beta owner_names_deposit split: option.splits)

lemma owner_names_main_withdraw:
  "map owner_name (accounts (fst (main_withdraw d now aid body))) = map owner_name (accounts d)"
  by (simp add: main_withdraw_def fst_case_withdraw owner_names_withdraw split: option.splits)

lemma distinct_call_tool:
  assumes "distinct (map owner_name (accounts d))"
  shows "distinct (map owner_name (accounts (fst (call_tool d now now' name args))))"
proof -
  consider (c) "name = ''create_account''" | (d) "name = ''deposit''" | (w) "name = ''withdraw''"
    | (o) "name \<noteq> ''create_account''" "name \<noteq> ''deposit''" "name \<noteq> ''withdraw''"
    by blast
  then show ?thesis
  proof cases
    case c
    then show ?thesis
      using assms
      by (auto simp: call_tool_create_account Let_def case_prod_beta owner_names_create_account
          split: option.splits dest: get_account_by_owner_name_None)
  next
    case d
    then show ?thesis
      using assms
      by (simp add: call_tool_deposit case_prod_beta owner_names_deposit split: option.splits)
  next
    case w
    then show ?thesis
      using assms
      by (simp add: call_tool_withdraw fst_case_withdraw owner_names_withdraw
          split: option.splits)
  next
    case o
    then show ?thesis using assms by (simp add: call_tool_read_only)
  qed
qed

lemma distinct_serve:
  "distinct (map owner_name (accounts d)) \<Longrightarrow> distinct (map owner_name (accounts (serve d r)))"
  by (cases r)
    (simp_all add: distinct_main_create_account owner_names_main_deposit
      owner_names_main_withdraw distinct_call_tool)

lemma distinct_serve_all:
  "distinct (map owner_name (accounts d)) \<Longrightarrow>
   distinct (map owner_name (accounts (serve_all d rs)))"
  by (induction rs arbitrary: d) (simp_all add: distinct_serve)

text \<open>
  C4 (as amended). The accounts table of models.py carries no uniqueness constraint on
  \<open>owner_name\<close>; the owner names are pairwise different in every store that the two
  front-ends have built up from the empty store, whatever the requests were, because
  each creation handler looks the owner up before it calls \<open>create_account\<close>.
\<close>

theorem owner_names_distinct_through_front_ends:
  "distinct (map owner_name (accounts (serve_all empty_db rs)))"
  using distinct_serve_all[of empty_db rs] by (simp add: empty_db_def)

text \<open>
  C4 as stated fails: the store itself accepts two account rows with one owner name.
\<close>

theorem owner_name_not_unique_counterexample:
  "run_ops empty_db [CreateAccount 1 2 ''Alice'' 100, CreateAccount 3 4 ''Alice'' 0] =
     Some (alice_db\<lparr>accounts := [alice,
              \<lparr>acc_id = 2, owner_name = ''Alice'', balance = Fin 0, created_at = 3\<rparr>],
            writes := [AccountInsert 1, TransactionInsert 1, AccountInsert 2]\<rparr>) \<and>
   acc_id alice
     \<noteq> acc_id \<lparr>acc_id = 2, owner_name = ''Alice'', balance = Fin 0, created_at = 3\<rparr> \<and>
   owner_name alice
     = owner_name \<lparr>acc_id = 2, owner_name = ''Alice'', balance = Fin 0, created_at = 3\<rparr>"
  by (simp add: create_account_db empty_db_def alice_db_def alice_def next_id_def)

text \<open>
  C5 (as amended). On create_account (for an owner name within the HTTP bound of 255
  characters), deposit and withdraw the tool front-end and the HTTP front-end accept and
  reject the same inputs: the same arguments lead to the same store and the same
  outcome. The get_transactions tool validates nothing: it has no offset and hands any
  limit (50 when absent) to the core with offset 0.
\<close>

theorem tool_validation_compared:
  "((case arg_owner_name args of None \<Rightarrow> True | Some raw \<Rightarrow> length raw \<le> 255) \<longrightarrow>
      fst (call_tool d now now' ''create_account'' args)
        = fst (main_create_account d now now' (arg_owner_name args) (arg_initial_balance args)) \<and>
      tool_outcome (snd (call_tool d now now' ''create_account'' args))
        = http_outcome (snd (main_create_account d now now' (arg_owner_name args)
                               (arg_initial_balance args)))) \<and>
   (arg_account_id args = Some aid \<longrightarrow>
      fst (call_tool d now now' ''deposit'' args) = fst (main_deposit d now aid (arg_amount args)) \<and>
      tool_outcome (snd (call_tool d now now' ''deposit'' args))
        = http_outcome (snd (main_deposit d now aid (arg_amount args))) \<and>
      fst (call_tool d now now' ''withdraw'' args)
        = fst (main_withdraw d now aid (arg_amount args)) \<and>
      tool_outcome (snd (call_tool d now now' ''withdraw'' args))
        = http_outcome (snd (main_withdraw d now aid (arg_amount args)))) \<and>
   (arg_account_id args = Some aid \<and> get_account_by_id d aid = Some account \<longrightarrow>
      call_tool d now now' ''get_transactions'' args =
        (d, TransactionsResult aid (get_transaction_count_by_account d aid)
              (get_transactions_by_account d aid
                 (case arg_limit args of None \<Rightarrow> 50 | Some l \<Rightarrow> l) 0)))"
proof -
  have create: "fst (call_tool d now now' ''create_account'' args)
        = fst (main_create_account d now now' (arg_owner_name args) (arg_initial_balance args)) \<and>
      tool_outcome (snd (call_tool d now now' ''create_account'' args))
        = http_outcome (snd (main_create_account d now now' (arg_owner_name args)
                               (arg_initial_balance args)))"
    if "case arg_owner_name args of None \<Rightarrow> True | Some raw \<Rightarrow> length raw \<le> 255"
    using that
    by (auto simp: call_tool_create_account main_create_account_def AccountCreate_def
        validate_owner_name_def Let_def case_prod_beta strip_def
        split: option.splits)
  have dep: "fst (call_tool d now now' ''deposit'' args)
        = fst (main_deposit d now aid (arg_amount args)) \<and>
      tool_outcome (snd (call_tool d now now' ''deposit'' args))
        = http_outcome (snd (main_deposit d now aid (arg_amount args)))"
    if "arg_account_id args = Some aid"
    using that
    by (auto simp: call_tool_deposit main_deposit_def DepositRequest_def get_account_by_arg_def
        case_prod_beta split: option.splits)
  have wd: "fst (call_tool d now now' ''withdraw'' args)
        = fst (main_withdraw d now aid (arg_amount args)) \<and>
      tool_outcome (snd (call_tool d now now' ''withdraw'' args))
        = http_outcome (snd (main_withdraw d now aid (arg_amount args)))"
    if "arg_account_id args = Some aid"
    using that
    by (auto simp: call_tool_withdraw main_withdraw_def WithdrawRequest_def
        get_account_by_arg_def split: option.splits prod.splits)
  have tx: "call_tool d now now' ''get_transactions'' args =
        (d, TransactionsResult aid (get_transaction_count_by_account d aid)
              (get_transactions_by_account d aid
                 (case arg_limit args of None \<Rightarrow> 50 | Some l \<Rightarrow> l) 0))"
    if "arg_account_id args = Some aid" "get_account_by_id d aid = Some account"
    using that by (simp add: call_tool_get_transactions get_account_by_arg_def)
  show ?thesis using create dep wd tx by blast
qed

theorem tool_validation_compared_witness:
  "length '' Bob '' \<le> 255 \<and>
   arg_account_id \<lparr>arg_owner_name = Some '' Bob '', arg_initial_balance = Some 5,
      arg_account_id = Some 1, arg_amount = Some 50, arg_limit = Some 1000\<rparr> = Some 1 \<and>
   get_account_by_id alice_db 1 = Some alice \<and>
   fst (call_tool alice_db 3 4 ''create_account''
          \<lparr>arg_owner_name = Some '' Bob '', arg_initial_balance = Some 5,
           arg_account_id = Some 1, arg_amount = Some 50, arg_limit = Some 1000\<rparr>)
     = fst (main_create_account alice_db 3 4 (Some '' Bob '') (Some 5)) \<and>
   fst (call_tool alice_db 3 4 ''deposit''
          \<lparr>arg_owner_name = Some '' Bob '', arg_initial_balance = Some 5,
           arg_account_id = Some 1, arg_amount = Some 50, arg_limit = Some 1000\<rparr>)
     = fst (main_deposit alice_db 3 1 (Some 50)) \<and>
   fst (call_tool alice_db 3 4 ''withdraw''
          \<lparr>arg_owner_name = Some '' Bob '', arg_initial_balance = Some 5,
           arg_account_id = Some 1, arg_amount = Some 50, arg_limit = Some 1000\<rparr>)
     = fst (main_withdraw alice_db 3 1 (Some 50)) \<and>
   call_tool alice_db 3 4 ''get_transactions''
          \<lparr>arg_owner_name = Some '' Bob '', arg_initial_balance = Some 5,
           arg_account_id = Some 1, arg_amount = Some 50, arg_limit = Some 1000\<rparr>
     = (alice_db, TransactionsResult 1 (get_transaction_count_by_account alice_db 1)
                    (get_transactions_by_account alice_db 1 1000 0))"
proof -
  have p: "get_account_by_id alice_db 1 = Some alice"
    using alice_persisted by (simp add: alice_def)
  from p tool_validation_compared[where d = alice_db and now = 3 and now' = 4 and aid = 1
      and account = alice
      and args = "\<lparr>arg_owner_name = Some '' Bob '', arg_initial_balance = Some 5,
           arg_account_id = Some 1, arg_amount = Some 50, arg_limit = Some 1000\<rparr>"]
  show ?thesis by simp
qed

text \<open>
  C5 as stated fails on pagination: the HTTP front-end refuses a limit of 1000 or of 0,
  the get_transactions tool passes either to the core and returns its rows.
\<close>

theorem tool_limit_unchecked_counterexample:
  "main_get_transactions alice_db 1 (Some 1000) None = RequestValidationError \<and>
   call_tool alice_db 3 4 ''get_transactions''
       \<lparr>arg_owner_name = None, arg_initial_balance = None, arg_account_id = Some 1,
        arg_amount = None, arg_limit = Some 1000\<rparr>
     = (alice_db, TransactionsResult 1 1 (transactions alice_db)) \<and>
   main_get_transactions alice_db 1 (Some 0) None = RequestValidationError \<and>
   call_tool alice_db 3 4 ''get_transactions''
       \<lparr>arg_owner_name = None, arg_initial_balance = None, arg_account_id = Some 1,
        arg_amount = None, arg_limit = Some 0\<rparr>
     = (alice_db, TransactionsResult 1 1 [])"
  by (simp add: main_get_transactions_def call_tool_get_transactions get_account_by_arg_def
      get_account_by_id_def get_transactions_by_account_def get_transaction_count_by_account_def
      order_by_timestamp_desc_def alice_db_def alice_def)




end
